theory Spec2Isabelle
  imports Complex_Main "HOL-Library.Word"
begin

section \<open>JavaScript values used by the bridge\<close>

text \<open>
  A numeric field of a parsed JSON sample is a number, or it is missing (\<open>undefined\<close>),
  \<open>null\<close> or \<open>NaN\<close>. Numbers are idealised as reals.
\<close>

datatype jsnum = Num real | NaN | Undefined | Null

text \<open>JavaScript truthiness of such a field: only a non-zero number is truthy.\<close>

fun truthy :: "jsnum \<Rightarrow> bool" where
  "truthy (Num r) = (r \<noteq> 0)"
| "truthy NaN = False"
| "truthy Undefined = False"
| "truthy Null = False"

text \<open>\<open>v || d\<close> for a numeric default \<open>d\<close>.\<close>

fun or_default :: "jsnum \<Rightarrow> real \<Rightarrow> real" where
  "or_default (Num r) d = (if r \<noteq> 0 then r else d)"
| "or_default NaN d = d"
| "or_default Undefined d = d"
| "or_default Null d = d"

text \<open>\<open>Math.floor\<close> and the remainder operator \<open>%\<close> (the sign follows the dividend).\<close>

definition math_floor :: "real \<Rightarrow> real" where
  "math_floor x = of_int \<lfloor>x\<rfloor>"

definition js_rem :: "real \<Rightarrow> real \<Rightarrow> real" where
  "js_rem a b = a - b * of_int (if a / b < 0 then \<lceil>a / b\<rceil> else \<lfloor>a / b\<rfloor>)"

type_synonym byte = "8 word"

datatype js_error = TypeError | SyntaxError | InvalidStateError

section \<open>Bus messages and publishers (ros_interface.js)\<close>

record stamp =
  sec :: real
  nanosec :: real

record header =
  hdr_stamp :: stamp
  frame_id :: string

record compressed_image =
  ci_header :: header
  ci_format :: string
  ci_data :: "byte list"

record region_of_interest =
  x_offset :: real
  y_offset :: real
  roi_height :: real
  roi_width :: real
  do_rectify :: bool

record camera_info =
  info_header :: header
  info_height :: real
  info_width :: real
  distortion_model :: string
  info_d :: "real list"
  info_k :: "real list"
  info_r :: "real list"
  info_p :: "real list"
  binning_x :: real
  binning_y :: real
  roi :: region_of_interest

record vector3 =
  vx :: real
  vy :: real
  vz :: real

record quaternion =
  qx :: real
  qy :: real
  qz :: real
  qw :: real

record imu_msg =
  imu_header :: header
  linear_acceleration :: vector3
  angular_velocity :: vector3
  orientation :: quaternion
  orientation_covariance :: "real list"
  angular_velocity_covariance :: "real list"
  linear_acceleration_covariance :: "real list"

record nav_sat_status =
  status :: int
  service :: int

record nav_sat_fix =
  fix_header :: header
  fix_status :: nav_sat_status
  latitude :: real
  longitude :: real
  altitude :: real
  position_covariance :: "real list"
  position_covariance_type :: int

text \<open>One entry of the bus log: which publisher's \<open>publish\<close> was called, with what.\<close>

datatype published =
  PubCompressed compressed_image
| PubCameraInfo camera_info
| PubImu imu_msg
| PubGps nav_sat_fix

text \<open>
  The module-level \<open>publishers\<close> object: every slot is \<open>null\<close> (\<open>False\<close>) until
  \<open>initRos\<close> has created the publisher.
\<close>

record publishers =
  compressed :: bool
  cameraInfo :: bool
  pose :: bool
  microphone :: bool
  imu :: bool
  gps :: bool

text \<open>
  The header stamp \<open>timestamp || {sec: Math.floor(Date.now() / 1000),
  nanosec: (Date.now() % 1000) * 1000000}\<close>. The clock is read twice; the pair holds the
  two readings in milliseconds.
\<close>

type_synonym clock = "real \<times> real"

definition stamp_or_now :: "stamp option \<Rightarrow> clock \<Rightarrow> stamp" where
  "stamp_or_now timestamp now =
     (case timestamp of
        Some s \<Rightarrow> s
      | None \<Rightarrow> \<lparr>sec = math_floor (fst now / 1000), nanosec = js_rem (snd now) 1000 * 1000000\<rparr>)"

text \<open>
  \<open>publishCameraData(imageBuffer, width, height, timestamp)\<close>: the returned flag and the bus
  log extended by the messages published, in order.
\<close>

definition publishCameraData ::
  "publishers \<Rightarrow> clock \<Rightarrow> byte list \<Rightarrow> real \<Rightarrow> real \<Rightarrow> stamp option \<Rightarrow> published list
     \<Rightarrow> bool \<times> published list" where
  "publishCameraData pubs now imageBuffer width height timestamp bus =
     (if \<not> compressed pubs \<or> \<not> cameraInfo pubs then (False, bus)
      else
        let hdr = \<lparr>hdr_stamp = stamp_or_now timestamp now, frame_id = ''camera_frame''\<rparr>;
            compressedMsg = \<lparr>ci_header = hdr, ci_format = ''jpeg'', ci_data = imageBuffer\<rparr>;
            cameraInfoMsg =
              \<lparr>info_header = hdr,
               info_height = height,
               info_width = width,
               distortion_model = ''plumb_bob'',
               info_d = [0, 0, 0, 0, 0],
               info_k = [width, 0, width / 2,
                    0, height, height / 2,
                    0, 0, 1],
               info_r = [1, 0, 0,
                    0, 1, 0,
                    0, 0, 1],
               info_p = [width, 0, width / 2, 0,
                    0, height, height / 2, 0,
                    0, 0, 1, 0],
               binning_x = 0,
               binning_y = 0,
               roi = \<lparr>x_offset = 0, y_offset = 0, roi_height = height, roi_width = width,
                      do_rectify = False\<rparr>\<rparr>
        in (True, bus @ [PubCompressed compressedMsg, PubCameraInfo cameraInfoMsg]))"

section \<open>The camera channel handler (websocket_handlers.js)\<close>

text \<open>
  The parsed camera message. \<open>camera\<close> is the string payload, \<open>None\<close> when the key is
  missing.
\<close>

record camera_message =
  camera :: "string option"
  msg_width :: jsnum
  msg_height :: jsnum
  msg_timestamp :: jsnum

text \<open>\<open>String.prototype.split\<close> with a one-character separator.\<close>

fun split :: "char \<Rightarrow> string \<Rightarrow> string list" where
  "split c [] = [[]]"
| "split c (x # xs) =
     (if x = c then [] # split c xs
      else (case split c xs of s # ss \<Rightarrow> (x # s) # ss | [] \<Rightarrow> [[x]]))"

text \<open>Array indexing: out of range gives \<open>undefined\<close>.\<close>

definition at_index :: "'a list \<Rightarrow> nat \<Rightarrow> 'a option" where
  "at_index xs i = (if i < length xs then Some (xs ! i) else None)"

text \<open>
  \<open>Buffer.from(value, 'base64')\<close>. The decoder of the runtime is the parameter
  \<open>base64\<close>; on \<open>undefined\<close> the call raises a \<open>TypeError\<close>.
\<close>

definition buffer_from :: "(string \<Rightarrow> byte list) \<Rightarrow> string option \<Rightarrow> js_error + byte list" where
  "buffer_from base64 v = (case v of None \<Rightarrow> Inl TypeError | Some s \<Rightarrow> Inr (base64 s))"

text \<open>
  The \<open>message\<close> handler installed by \<open>setupCameraHandlers\<close>. The argument is the result of
  \<open>JSON.parse\<close> (\<open>None\<close> when it raises). The result is the error that was caught and
  logged, if any, and the bus log.
\<close>

definition camera_stamp :: "jsnum \<Rightarrow> clock \<Rightarrow> stamp" where
  "camera_stamp ts now =
     \<lparr>sec = math_floor (if truthy ts then or_default ts 0 / 1000 else fst now / 1000),
      nanosec = (if truthy ts then js_rem (or_default ts 0) 1000 else js_rem (snd now) 1000)
                  * 1000000\<rparr>"

definition setupCameraHandlers ::
  "(string \<Rightarrow> byte list) \<Rightarrow> publishers \<Rightarrow> clock \<Rightarrow> camera_message option \<Rightarrow> published list
     \<Rightarrow> js_error option \<times> published list" where
  "setupCameraHandlers base64 pubs now message bus =
     (case message of
        None \<Rightarrow> (Some SyntaxError, bus)
      | Some data \<Rightarrow>
          (case camera data of
             None \<Rightarrow> (None, bus)
           | Some payload \<Rightarrow>
               if payload = [] then (None, bus)
               else
                 (case buffer_from base64 (at_index (split CHR '','' payload) 1) of
                    Inl e \<Rightarrow> (Some e, bus)
                  | Inr imageBuffer \<Rightarrow>
                      let width = or_default (msg_width data) 640;
                          height = or_default (msg_height data) 480;
                          stamp = camera_stamp (msg_timestamp data) now
                      in (None, snd (publishCameraData pubs now imageBuffer width height
                                       (Some stamp) bus)))))"

section \<open>Inertial and geo-fix publishing (ros_interface.js)\<close>

text \<open>The \<open>imu\<close> object of an IMU channel message, as the browser sends it.\<close>

record accelerometer_data =
  acc_x :: jsnum
  acc_y :: jsnum
  acc_z :: jsnum

record gyroscope_data =
  alpha :: jsnum
  beta :: jsnum
  gamma :: jsnum

record magnetometer_data =
  heading :: jsnum
  mag_x :: jsnum
  mag_y :: jsnum
  mag_z :: jsnum

record imu_sample =
  accelerometer :: accelerometer_data
  gyroscope :: gyroscope_data
  magnetometer :: magnetometer_data

text \<open>\<open>eulerToQuaternion(roll, pitch, yaw)\<close>, angles in degrees.\<close>

definition eulerToQuaternion :: "real \<Rightarrow> real \<Rightarrow> real \<Rightarrow> quaternion" where
  "eulerToQuaternion roll pitch yaw =
     (let roll' = roll * pi / 180;
          pitch' = pitch * pi / 180;
          yaw' = yaw * pi / 180;
          cy = cos (yaw' * 0.5);
          sy = sin (yaw' * 0.5);
          cp = cos (pitch' * 0.5);
          sp = sin (pitch' * 0.5);
          cr = cos (roll' * 0.5);
          sr = sin (roll' * 0.5);
          w = cr * cp * cy + sr * sp * sy;
          x = sr * cp * cy - cr * sp * sy;
          y = cr * sp * cy + sr * cp * sy;
          z = cr * cp * sy - sr * sp * cy
      in \<lparr>qx = x, qy = y, qz = z, qw = w\<rparr>)"

text \<open>The object \<open>imuMsg\<close> built by \<open>publishIMUData\<close>.\<close>

definition imuMsg :: "clock \<Rightarrow> imu_sample \<Rightarrow> stamp option \<Rightarrow> imu_msg" where
  "imuMsg now imuData timestamp =
     (let hdr = \<lparr>hdr_stamp = stamp_or_now timestamp now, frame_id = ''imu_frame''\<rparr>;
          q = eulerToQuaternion 0 0 (or_default (mag_z (magnetometer imuData)) 0)
      in \<lparr>imu_header = hdr,
          linear_acceleration =
            \<lparr>vx = or_default (acc_x (accelerometer imuData)) 0,
             vy = or_default (acc_y (accelerometer imuData)) 0,
             vz = or_default (acc_z (accelerometer imuData)) 0\<rparr>,
          angular_velocity =
            \<lparr>vx = or_default (beta (gyroscope imuData)) 0,
             vy = or_default (alpha (gyroscope imuData)) 0,
             vz = or_default (gamma (gyroscope imuData)) 0\<rparr>,
          orientation = \<lparr>qx = qx q, qy = qy q, qz = qz q, qw = qw q\<rparr>,
          orientation_covariance = replicate 9 (- 1),
          angular_velocity_covariance = replicate 9 (- 1),
          linear_acceleration_covariance = replicate 9 (- 1)\<rparr>)"

definition publishIMUData ::
  "publishers \<Rightarrow> clock \<Rightarrow> imu_sample \<Rightarrow> stamp option \<Rightarrow> published list
     \<Rightarrow> bool \<times> published list" where
  "publishIMUData pubs now imuData timestamp bus =
     (if \<not> imu pubs then (False, bus)
      else (True, bus @ [PubImu (imuMsg now imuData timestamp)]))"

text \<open>The \<open>gps\<close> object of a GPS channel message.\<close>

record gps_sample =
  gps_latitude :: jsnum
  gps_longitude :: jsnum
  gps_altitude :: jsnum
  gps_accuracy :: jsnum
  gps_heading :: jsnum
  gps_speed :: jsnum
  gps_timestamp :: jsnum

text \<open>
  \<open>(gpsData.altitude !== null && !isNaN(gpsData.altitude)) ? gpsData.altitude : 0.0\<close>;
  \<open>isNaN(undefined)\<close> is true.
\<close>

fun altitude_or_zero :: "jsnum \<Rightarrow> real" where
  "altitude_or_zero (Num a) = a"
| "altitude_or_zero NaN = 0"
| "altitude_or_zero Undefined = 0"
| "altitude_or_zero Null = 0"

text \<open>The object \<open>navSatFixMsg\<close> built by \<open>publishGPSData\<close>.\<close>

definition navSatFixMsg :: "clock \<Rightarrow> gps_sample \<Rightarrow> stamp option \<Rightarrow> nav_sat_fix" where
  "navSatFixMsg now gpsData timestamp =
     (let hdr = \<lparr>hdr_stamp = stamp_or_now timestamp now, frame_id = ''gps_frame''\<rparr>;
          altitude = altitude_or_zero (gps_altitude gpsData);
          accuracy = or_default (gps_accuracy gpsData) 1;
          variance = accuracy * accuracy;
          positionCovariance = (replicate 9 0)[0 := variance, 4 := variance, 8 := variance]
      in \<lparr>fix_header = hdr,
          fix_status = \<lparr>status = 0, service = 1\<rparr>,
          latitude = or_default (gps_latitude gpsData) 0,
          longitude = or_default (gps_longitude gpsData) 0,
          altitude = altitude,
          position_covariance = positionCovariance,
          position_covariance_type = 2\<rparr>)"

definition publishGPSData ::
  "publishers \<Rightarrow> clock \<Rightarrow> gps_sample \<Rightarrow> stamp option \<Rightarrow> published list
     \<Rightarrow> bool \<times> published list" where
  "publishGPSData pubs now gpsData timestamp bus =
     (if \<not> gps pubs then (False, bus)
      else (True, bus @ [PubGps (navSatFixMsg now gpsData timestamp)]))"

section \<open>The browser audio player (audioPlayer.js)\<close>

text \<open>\<open>'R'.charCodeAt(0)\<close> and its like.\<close>

definition charCodeAt0 :: "char \<Rightarrow> nat" where
  "charCodeAt0 c = of_char c"

text \<open>
  The \<open>DataView\<close> setters, little-endian where a flag is given. The value is reduced
  to the width of the field, as \<open>ToUint16\<close> and \<open>ToUint32\<close> do.
\<close>

definition setUint8 :: "nat \<Rightarrow> nat \<Rightarrow> byte list \<Rightarrow> byte list" where
  "setUint8 byteOffset v view = view[byteOffset := of_nat v]"

definition setUint16 :: "nat \<Rightarrow> nat \<Rightarrow> byte list \<Rightarrow> byte list" where
  "setUint16 byteOffset v view =
     (let w = v mod 2 ^ 16
      in view[byteOffset := of_nat w, byteOffset + 1 := of_nat (w div 256)])"

definition setUint32 :: "nat \<Rightarrow> nat \<Rightarrow> byte list \<Rightarrow> byte list" where
  "setUint32 byteOffset v view =
     (let w = v mod 2 ^ 32
      in view[byteOffset := of_nat w, byteOffset + 1 := of_nat (w div 256),
              byteOffset + 2 := of_nat (w div 65536),
              byteOffset + 3 := of_nat (w div 16777216)])"

text \<open>The 44 header bytes that \<open>addWavHeader\<close> writes for a payload of \<open>dataSize\<close> bytes.\<close>

definition wavHeader :: "nat \<Rightarrow> byte list" where
  "wavHeader dataSize =
     (let numChannels = 1;
          sampleRate = 48000;
          bitsPerSample = 16;
          blockAlign = numChannels * (bitsPerSample div 8);
          byteRate = sampleRate * blockAlign;
          headerSize = 44
      in (setUint32 40 dataSize
         \<circ> setUint8 39 (charCodeAt0 CHR ''a'')
         \<circ> setUint8 38 (charCodeAt0 CHR ''t'')
         \<circ> setUint8 37 (charCodeAt0 CHR ''a'')
         \<circ> setUint8 36 (charCodeAt0 CHR ''d'')
         \<circ> setUint16 34 bitsPerSample
         \<circ> setUint16 32 blockAlign
         \<circ> setUint32 28 byteRate
         \<circ> setUint32 24 sampleRate
         \<circ> setUint16 22 numChannels
         \<circ> setUint16 20 1
         \<circ> setUint32 16 16
         \<circ> setUint8 15 (charCodeAt0 CHR '' '')
         \<circ> setUint8 14 (charCodeAt0 CHR ''t'')
         \<circ> setUint8 13 (charCodeAt0 CHR ''m'')
         \<circ> setUint8 12 (charCodeAt0 CHR ''f'')
         \<circ> setUint8 11 (charCodeAt0 CHR ''E'')
         \<circ> setUint8 10 (charCodeAt0 CHR ''V'')
         \<circ> setUint8 9 (charCodeAt0 CHR ''A'')
         \<circ> setUint8 8 (charCodeAt0 CHR ''W'')
         \<circ> setUint32 4 (36 + dataSize)
         \<circ> setUint8 3 (charCodeAt0 CHR ''F'')
         \<circ> setUint8 2 (charCodeAt0 CHR ''F'')
         \<circ> setUint8 1 (charCodeAt0 CHR ''I'')
         \<circ> setUint8 0 (charCodeAt0 CHR ''R''))
        (replicate headerSize 0))"

text \<open>\<open>addWavHeader(audioData)\<close>: the header, then the data.\<close>

definition addWavHeader :: "byte list \<Rightarrow> byte list" where
  "addWavHeader audioData = wavHeader (length audioData) @ audioData"

text \<open>
  \<open>processAudioData(audioData)\<close>, up to the value of \<open>processedData\<close> that is then played
  or queued.
\<close>

definition processAudioData :: "byte list \<Rightarrow> byte list" where
  "processAudioData audioData =
     (if length audioData \<ge> 12 then
        (let headerView = take 12 audioData;
             isRiff = (headerView ! 0 = 82 \<and> headerView ! 1 = 73
                       \<and> headerView ! 2 = 70 \<and> headerView ! 3 = 70);
             isWave = (headerView ! 8 = 87 \<and> headerView ! 9 = 65
                       \<and> headerView ! 10 = 86 \<and> headerView ! 11 = 69)
         in if \<not> (isRiff \<and> isWave) then addWavHeader audioData else audioData)
      else addWavHeader audioData)"

text \<open>
  The container header in the words of the specification: the first four bytes are
  ASCII \<open>RIFF\<close> and bytes 8 to 11 are ASCII \<open>WAVE\<close>.
\<close>

definition ascii :: "string \<Rightarrow> byte list" where
  "ascii s = map (\<lambda>c. of_nat (of_char c)) s"

definition has_riff_wave_header :: "byte list \<Rightarrow> bool" where
  "has_riff_wave_header buf \<longleftrightarrow>
     take 4 buf = ascii ''RIFF'' \<and> take 4 (drop 8 buf) = ascii ''WAVE''"

text \<open>Reading a little-endian field back, as \<open>DataView.getUint16/32(offset, true)\<close> would.\<close>

definition getUint16 :: "byte list \<Rightarrow> nat \<Rightarrow> nat" where
  "getUint16 buf byteOffset = unat (buf ! byteOffset) + 256 * unat (buf ! (byteOffset + 1))"

definition getUint32 :: "byte list \<Rightarrow> nat \<Rightarrow> nat" where
  "getUint32 buf byteOffset =
     unat (buf ! byteOffset) + 256 * unat (buf ! (byteOffset + 1))
     + 65536 * unat (buf ! (byteOffset + 2)) + 16777216 * unat (buf ! (byteOffset + 3))"

section \<open>Sockets\<close>

datatype ready_state = CONNECTING | OPEN | CLOSING | CLOSED

text \<open>What goes over a socket: a text frame, a binary frame, or a JSON text frame.\<close>

datatype json_payload =
  ImuPayload real accelerometer_data gyroscope_data magnetometer_data
| CameraPayload real string real real
| PosePayload real vector3 quaternion
| GpsPayload gps_sample
| TranscriptionPayload stamp string
| StatusPayload string string string

datatype ws_data = Text string | Binary "byte list" | Json json_payload

text \<open>
  One end of a connection: its state and the frames handed to it for transmission so
  far, oldest first.
\<close>

record web_socket =
  readyState :: ready_state
  sent :: "ws_data list"

text \<open>
  \<open>send\<close> of a socket: on an open socket the frame goes out; on a socket that is still
  connecting the call raises; on a closing or closed socket the frame is dropped and
  the call returns.
\<close>

definition send :: "web_socket \<Rightarrow> ws_data \<Rightarrow> js_error + web_socket" where
  "send socket frame =
     (case readyState socket of
        OPEN \<Rightarrow> Inr (socket\<lparr>sent := sent socket @ [frame]\<rparr>)
      | CONNECTING \<Rightarrow> Inl InvalidStateError
      | CLOSING \<Rightarrow> Inr socket
      | CLOSED \<Rightarrow> Inr socket)"

text \<open>
  What may happen to an open socket while a function that has tested it is suspended in
  an \<open>await\<close>: it stays open, the closing handshake begins, or it gets closed.
\<close>

datatype socket_event = StaysOpen | StartsClosing | GetsClosed

fun during_await :: "socket_event \<Rightarrow> web_socket \<Rightarrow> web_socket" where
  "during_await StaysOpen socket = socket"
| "during_await StartsClosing socket = socket\<lparr>readyState := CLOSING\<rparr>"
| "during_await GetsClosed socket = socket\<lparr>readyState := CLOSED\<rparr>"

section \<open>Bus subscriptions and their fan-out (ros_interface.js)\<close>

text \<open>
  The first loop of the TTS subscription callback, counting the open clients, and the
  second, sending to them. No handler surrounds the sends: an error would leave the
  callback.
\<close>

fun count_active :: "web_socket list \<Rightarrow> nat \<Rightarrow> nat" where
  "count_active [] activeClientCount = activeClientCount"
| "count_active (client # clients) activeClientCount =
     count_active clients
       (if readyState client = OPEN then activeClientCount + 1 else activeClientCount)"

fun tts_forward :: "string \<Rightarrow> web_socket list \<Rightarrow> js_error + web_socket list" where
  "tts_forward msg_data [] = Inr []"
| "tts_forward msg_data (client # clients) =
     (if readyState client = OPEN then
        (case send client (Text msg_data) of
           Inl e \<Rightarrow> Inl e
         | Inr client' \<Rightarrow>
             (case tts_forward msg_data clients of
                Inl e \<Rightarrow> Inl e
              | Inr clients' \<Rightarrow> Inr (client' # clients')))
      else
        (case tts_forward msg_data clients of
           Inl e \<Rightarrow> Inl e
         | Inr clients' \<Rightarrow> Inr (client # clients')))"

text \<open>
  The callback of the \<open>mobile_sensor/tts\<close> subscription on the clients of \<open>wssTTS\<close>:
  the count that is logged, and the clients afterwards (or the error that escaped).
\<close>

definition tts_subscription :: "string \<Rightarrow> web_socket list \<Rightarrow> nat \<times> (js_error + web_socket list)" where
  "tts_subscription msg_data clients = (count_active clients 0, tts_forward msg_data clients)"

text \<open>
  The loop of the two WAV subscription callbacks: the clients afterwards, \<open>clientCount\<close>,
  and the error that ended the loop, if any.
\<close>

fun wav_forward ::
  "byte list \<Rightarrow> web_socket list \<Rightarrow> nat \<Rightarrow> web_socket list \<times> nat \<times> js_error option" where
  "wav_forward buffer [] clientCount = ([], clientCount, None)"
| "wav_forward buffer (client # clients) clientCount =
     (if readyState client = OPEN then
        (case send client (Binary buffer) of
           Inl e \<Rightarrow> (client # clients, clientCount, Some e)
         | Inr client' \<Rightarrow>
             (case wav_forward buffer clients (clientCount + 1) of
                (clients', n, err) \<Rightarrow> (client' # clients', n, err)))
      else
        (case wav_forward buffer clients clientCount of
           (clients', n, err) \<Rightarrow> (client # clients', n, err)))"

text \<open>The header test that both WAV callbacks compute on the buffer.\<close>

definition hasWavHeader :: "byte list \<Rightarrow> bool" where
  "hasWavHeader buffer \<longleftrightarrow>
     length buffer \<ge> 12
     \<and> buffer ! 0 = 82 \<and> buffer ! 1 = 73 \<and> buffer ! 2 = 70 \<and> buffer ! 3 = 70
     \<and> buffer ! 8 = 87 \<and> buffer ! 9 = 65 \<and> buffer ! 10 = 86 \<and> buffer ! 11 = 69"

datatype log_line =
  ForwardedWav nat nat
| ForwardedWavHeader nat nat bool
| ErrorProcessingAudio js_error

text \<open>
  The callbacks of \<open>mobile_sensor/tts_wav\<close> and of \<open>mobile_sensor/wav_bytes\<close> on the
  clients of \<open>wssWavAudio\<close>: the clients afterwards and the lines logged.
\<close>

definition tts_wav_subscription :: "byte list \<Rightarrow> web_socket list \<Rightarrow> web_socket list \<times> log_line list" where
  "tts_wav_subscription msg_data clients =
     (let buffer = msg_data;
          hasHeader = hasWavHeader buffer
      in case wav_forward buffer clients 0 of
           (clients', clientCount, Some e) \<Rightarrow> (clients', [ErrorProcessingAudio e])
         | (clients', clientCount, None) \<Rightarrow>
             (clients',
              if clientCount > 0 then [ForwardedWav (length buffer) clientCount] else []))"

definition wav_bytes_subscription :: "byte list \<Rightarrow> web_socket list \<Rightarrow> web_socket list \<times> log_line list" where
  "wav_bytes_subscription msg_data clients =
     (let buffer = msg_data;
          hasHeader = hasWavHeader buffer
      in case wav_forward buffer clients 0 of
           (clients', clientCount, Some e) \<Rightarrow> (clients', [ErrorProcessingAudio e])
         | (clients', clientCount, None) \<Rightarrow>
             (clients',
              if clientCount > 0
              then [ForwardedWavHeader (length buffer) clientCount hasHeader] else []))"

text \<open>
  A new peer on the speech-output channel (\<open>setupTTSHandlers\<close>) and on the audio channel
  (\<open>setupWavAudioHandlers\<close>): it joins the client set and is sent a greeting.
\<close>

definition tts_connection :: "web_socket list \<Rightarrow> web_socket list" where
  "tts_connection clients =
     (let peer = \<lparr>readyState = OPEN, sent = []\<rparr>
      in clients
         @ [case send peer (Text ''TTS system ready'') of Inl e \<Rightarrow> peer | Inr peer' \<Rightarrow> peer'])"

definition wavAudio_connection :: "web_socket list \<Rightarrow> js_error + web_socket list" where
  "wavAudio_connection clients =
     (let peer = \<lparr>readyState = OPEN, sent = []\<rparr>
      in case send peer (Json (StatusPayload ''connected'' ''Ready to receive audio data''
                                 ''active'')) of
           Inl e \<Rightarrow> Inl e
         | Inr peer' \<Rightarrow> Inr (clients @ [peer']))"

text \<open>
  Delivery in the words of the specification: a peer in open state gets the payload, any
  other peer is passed over.
\<close>

definition deliver :: "ws_data \<Rightarrow> web_socket \<Rightarrow> web_socket" where
  "deliver payload peer =
     (if readyState peer = OPEN then peer\<lparr>sent := sent peer @ [payload]\<rparr> else peer)"

section \<open>Producer-side sends (browser)\<close>

text \<open>
  The fields of \<open>IMUSensorManager\<close> that \<open>sendSensorData\<close> reads. \<open>ws\<close> and
  \<open>websocket\<close> are the two properties under which the socket may have been stored.
\<close>

record imu_manager =
  isActive :: bool
  ws :: "web_socket option"
  websocket :: "web_socket option"
  accelerometerData :: accelerometer_data
  gyroscopeData :: gyroscope_data
  magnetometerData :: magnetometer_data

text \<open>\<open>this.ws || this.websocket\<close>\<close>

definition socket_of :: "imu_manager \<Rightarrow> web_socket option" where
  "socket_of this = (case ws this of Some s \<Rightarrow> Some s | None \<Rightarrow> websocket this)"

text \<open>
  \<open>IMUSensorManager.sendSensorData()\<close> at clock reading \<open>now\<close>: the error caught and
  logged, if any, and the manager afterwards.
\<close>

definition sendSensorData :: "real \<Rightarrow> imu_manager \<Rightarrow> js_error option \<times> imu_manager" where
  "sendSensorData now this =
     (case socket_of this of
        None \<Rightarrow> (None, this)
      | Some socket \<Rightarrow>
          if \<not> isActive this \<or> readyState socket \<noteq> OPEN then (None, this)
          else
            (let payload = ImuPayload now (accelerometerData this) (gyroscopeData this)
                             (magnetometerData this)
             in case send socket (Json payload) of
                  Inl e \<Rightarrow> (Some e, this)
                | Inr socket' \<Rightarrow>
                    (None, if ws this \<noteq> None then this\<lparr>ws := Some socket'\<rparr>
                           else this\<lparr>websocket := Some socket'\<rparr>)))"

text \<open>
  The sending step of the frame loop in \<open>camera.js\<close>. The socket is tested first; then
  the loop awaits \<open>processFrame\<close>, which gives the frame as a data URL or raises, and
  during which the socket may change; then \<open>ws.send\<close> is called without a second test.
  The result is the error caught and logged, if any, and the socket afterwards. The
  loop's own \<open>lastCameraFrame\<close> and \<open>lastSentTime\<close> are left out.
\<close>

definition processFrames_send ::
  "real \<Rightarrow> js_error + string \<Rightarrow> real \<Rightarrow> real \<Rightarrow> socket_event \<Rightarrow> web_socket option
     \<Rightarrow> js_error option \<times> web_socket option" where
  "processFrames_send now encoded width height event wsock =
     (case wsock of
        None \<Rightarrow> (None, wsock)
      | Some socket \<Rightarrow>
          if readyState socket = OPEN then
            (let socket1 = during_await event socket
             in case encoded of
                  Inl e \<Rightarrow> (Some e, Some socket1)
                | Inr lastCameraFrame \<Rightarrow>
                    (case send socket1 (Json (CameraPayload now lastCameraFrame width height)) of
                       Inl e \<Rightarrow> (Some e, Some socket1)
                     | Inr socket2 \<Rightarrow> (None, Some socket2)))
          else (None, wsock))"

text \<open>
  The sending step of the XR frame callback for the pose channel. It has no handler of
  its own: an error of \<open>send\<close> would leave the callback.
\<close>

definition pose_send ::
  "real \<Rightarrow> vector3 \<Rightarrow> quaternion \<Rightarrow> web_socket option \<Rightarrow> js_error + web_socket option" where
  "pose_send now pos ori poseWs =
     (case poseWs of
        None \<Rightarrow> Inr poseWs
      | Some socket \<Rightarrow>
          if readyState socket = OPEN then
            (case send socket (Json (PosePayload now pos ori)) of
               Inl e \<Rightarrow> Inl e
             | Inr socket' \<Rightarrow> Inr (Some socket'))
          else Inr poseWs)"

text \<open>\<open>GPSSensorManager.sendGPSData()\<close>.\<close>

record gps_manager =
  gps_isActive :: bool
  gps_ws :: "web_socket option"
  gpsData :: gps_sample

definition sendGPSData :: "gps_manager \<Rightarrow> js_error option \<times> gps_manager" where
  "sendGPSData this =
     (case gps_ws this of
        None \<Rightarrow> (None, this)
      | Some socket \<Rightarrow>
          if \<not> gps_isActive this \<or> readyState socket \<noteq> OPEN then (None, this)
          else
            (case send socket (Json (GpsPayload (gpsData this))) of
               Inl e \<Rightarrow> (Some e, this)
             | Inr socket' \<Rightarrow> (None, this\<lparr>gps_ws := Some socket'\<rparr>)))"

text \<open>
  The sending step of the transcription timer in \<open>speechRecognition.js\<close>, at clock
  reading \<open>now\<close>. It has no handler of its own.
\<close>

definition transcription_send ::
  "real \<Rightarrow> string \<Rightarrow> web_socket option \<Rightarrow> js_error + web_socket option" where
  "transcription_send now prompt wsock =
     (case wsock of
        None \<Rightarrow> Inr wsock
      | Some socket \<Rightarrow>
          if readyState socket = OPEN then
            (case send socket
                    (Json (TranscriptionPayload
                             \<lparr>sec = math_floor (now / 1000), nanosec = js_rem now 1000 * 1000000\<rparr>
                             prompt)) of
               Inl e \<Rightarrow> Inl e
             | Inr socket' \<Rightarrow> Inr (Some socket'))
          else Inr wsock)"

text \<open>
  The sending step of the capture interval in \<open>iosCameraManager.js\<close>: whether the video
  element has enough data, the size of the video, the frame as a data URL and the fixed
  size sent with it.
\<close>

definition captureInterval_send ::
  "real \<Rightarrow> bool \<Rightarrow> real \<Rightarrow> real \<Rightarrow> string \<Rightarrow> real \<Rightarrow> real \<Rightarrow> web_socket option
     \<Rightarrow> js_error option \<times> web_socket option" where
  "captureInterval_send now videoReady videoWidth videoHeight dataUrl fixedWidth fixedHeight
     wsock =
     (case wsock of
        None \<Rightarrow> (None, wsock)
      | Some socket \<Rightarrow>
          if readyState socket = OPEN \<and> videoReady then
            (if videoWidth \<noteq> 0 \<and> videoHeight \<noteq> 0 then
               (case send socket (Json (CameraPayload now dataUrl fixedWidth fixedHeight)) of
                  Inl e \<Rightarrow> (Some e, wsock)
                | Inr socket' \<Rightarrow> (None, Some socket'))
             else (None, wsock))
          else (None, wsock))"

text \<open>A socket, if there is one, is not in open state.\<close>

definition not_open :: "web_socket option \<Rightarrow> bool" where
  "not_open socket = (case socket of None \<Rightarrow> True | Some s \<Rightarrow> readyState s \<noteq> OPEN)"

section \<open>Reconnection after a close (browser)\<close>

text \<open>The five sensor channels whose sockets the page script opens itself.\<close>

datatype sensor = PoseChannel | CameraChannel | MicrophoneChannel | ImuChannel | GpsChannel














text \<open>
  What \<open>await this.init()\<close> comes to: the voices get loaded; or it returns without
  them (an initialisation is in progress already, or it fails and the error is caught);
  or it never returns, \<open>initVoices\<close> trying again every 500 ms while there is no voice.
\<close>

datatype init_outcome = VoicesLoaded | ReturnsWithoutVoices | NeverReturns




section \<open>Shutdown of the server process (server entry point, express_server.js)\<close>

datatype log_entry =
  HeaderShuttingDown
| InfoAllNodesDeactivated
| InfoRosShuttingDown
| SuccessRosShutDown
| ErrorRosShutdown
| InfoRosAlreadyShutDown
| WarnShutdownTooLong
| InfoNoServerToStop
| WarnServerCloseTimedOut
| ErrorStoppingServer
| SuccessServerClosed
| ErrorExceptionStoppingServer
| SuccessShutdownComplete
| ErrorDuringShutdown

text \<open>
  Time is the time of the event loop in milliseconds: timers and callbacks fire at their
  time, and the synchronous code between them takes none. A promise is settled at some
  time, or never.
\<close>

datatype promise = Resolves nat | Rejects nat | Never

fun settles :: "promise \<Rightarrow> nat option" where
  "settles (Resolves t) = Some t"
| "settles (Rejects t) = Some t"
| "settles Never = None"

text \<open>\<open>Promise.race([p, q])\<close>: the one settled first, \<open>p\<close> on a tie.\<close>

definition race :: "promise \<Rightarrow> promise \<Rightarrow> promise" where
  "race p q =
     (case settles p of
        None \<Rightarrow> q
      | Some s \<Rightarrow> (case settles q of None \<Rightarrow> p | Some t \<Rightarrow> if s \<le> t then p else q))"

text \<open>
  \<open>await p\<close> begun at time \<open>now\<close>: the time at which the function goes on (\<open>Inr\<close>) or
  at which the rejection is thrown into it (\<open>Inl\<close>); \<open>None\<close> when it never resumes.
\<close>

fun await :: "nat \<Rightarrow> promise \<Rightarrow> (nat + nat) option" where
  "await now (Resolves t) = Some (Inr (max now t))"
| "await now (Rejects t) = Some (Inl (max now t))"
| "await now Never = None"

text \<open>Whether the timer at \<open>deadline\<close> fires before \<open>p\<close> is settled.\<close>

definition timed_out :: "promise \<Rightarrow> nat \<Rightarrow> bool" where
  "timed_out p deadline = (case settles p of None \<Rightarrow> True | Some s \<Rightarrow> deadline < s)"

text \<open>
  What the shutdown meets: the ROS node and publishers, whether \<open>rclnodejs\<close> is shut
  down already and whether its \<open>shutdown()\<close> raises, whether there is an HTTPS server,
  and what \<open>server.close\<close> does: it calls back after some time, with or without an
  error, or never, or it raises.
\<close>

datatype close_outcome = CallsBack nat bool | NeverCallsBack | CloseRaises

record shutdown_env =
  rosNode :: bool
  rosPublishers :: publishers
  isShutdown :: bool
  rclShutdownRaises :: bool
  httpsServer :: bool
  closeOutcome :: close_outcome

text \<open>
  \<open>shutdown()\<close> of ros_interface.js, called at time \<open>now\<close>: its promise, the lines it
  logs, and the publishers afterwards.
\<close>

definition ros_shutdown ::
  "nat \<Rightarrow> shutdown_env \<Rightarrow> promise \<times> (nat \<times> log_entry) list \<times> publishers" where
  "ros_shutdown now env =
     (Resolves now,
      (now, InfoRosShuttingDown)
      # (if \<not> isShutdown env
         then (if rclShutdownRaises env then [(now, ErrorRosShutdown)]
               else [(now, SuccessRosShutDown)])
         else [(now, InfoRosAlreadyShutDown)]),
      if \<not> isShutdown env \<and> rosNode env
      then \<lparr>compressed = False, cameraInfo = False, pose = False, microphone = False,
            imu = False, gps = False\<rparr>
      else rosPublishers env)"

text \<open>
  \<open>stopServer(server)\<close> of express_server.js, called at time \<open>now\<close>: its promise and the
  lines it logs until then. The callback of \<open>server.close\<close> wins over the 2000 ms timer
  when it comes earlier.
\<close>

definition stopServer :: "nat \<Rightarrow> bool \<Rightarrow> close_outcome \<Rightarrow> promise \<times> (nat \<times> log_entry) list" where
  "stopServer now server outcome =
     (if \<not> server then (Resolves now, [(now, InfoNoServerToStop)])
      else
        (case outcome of
           CloseRaises \<Rightarrow> (Resolves now, [(now, ErrorExceptionStoppingServer)])
         | CallsBack d err \<Rightarrow>
             if d < 2000
             then (Resolves (now + d),
                   [(now + d, if err then ErrorStoppingServer else SuccessServerClosed)])
             else (Resolves (now + 2000), [(now + 2000, WarnServerCloseTimedOut)])
         | NeverCallsBack \<Rightarrow> (Resolves (now + 2000), [(now + 2000, WarnServerCloseTimedOut)])))"

text \<open>How the process ends: \<open>process.exit(code)\<close> at a time, after these log lines.\<close>

record process_exit =
  exit_code :: int
  exit_time :: nat
  exit_log :: "(nat \<times> log_entry) list"

definition logged_by :: "nat \<Rightarrow> (nat \<times> log_entry) list \<Rightarrow> (nat \<times> log_entry) list" where
  "logged_by t entries = filter (\<lambda>entry. fst entry \<le> t) entries"

text \<open>
  The body of \<open>shutdown()\<close> of the server entry point, begun at time \<open>start\<close>, for any
  behaviour of the steps it calls: whether \<open>closeAllConnections()\<close> raises (it calls
  \<open>close\<close> on the open sockets and does not wait for them), the promise and log of the
  ROS shutdown, and those of the server stop when called at a given time. \<open>None\<close> would
  mean that the function never reaches \<open>process.exit\<close>.
\<close>

definition shutdown_sequence ::
  "nat \<Rightarrow> js_error option \<Rightarrow> promise \<times> (nat \<times> log_entry) list
     \<Rightarrow> (nat \<Rightarrow> promise \<times> (nat \<times> log_entry) list) \<Rightarrow> process_exit option" where
  "shutdown_sequence start closeAll rosStep serverStep =
     (let header = [(start, HeaderShuttingDown)];
          deadline = start + 3000;
          timeoutPromise = Resolves deadline
      in case closeAll of
           Some e \<Rightarrow>
             Some \<lparr>exit_code = 0, exit_time = start,
                   exit_log = header @ [(start, ErrorDuringShutdown)]\<rparr>
         | None \<Rightarrow>
             (let log1 = header @ [(start, InfoAllNodesDeactivated)]
              in case await start (race (fst rosStep) timeoutPromise) of
                   None \<Rightarrow> None
                 | Some (Inl t1) \<Rightarrow>
                     Some \<lparr>exit_code = 0, exit_time = t1,
                           exit_log = log1 @ logged_by t1 (snd rosStep)
                                      @ [(t1, ErrorDuringShutdown)]\<rparr>
                 | Some (Inr t1) \<Rightarrow>
                     (let warn1 = (if timed_out (fst rosStep) deadline
                                   then [(deadline, WarnShutdownTooLong)] else []);
                          log2 = log1 @ logged_by t1 (snd rosStep) @ warn1;
                          server = serverStep t1
                      in case await t1 (race (fst server) timeoutPromise) of
                           None \<Rightarrow> None
                         | Some (Inl t2) \<Rightarrow>
                             Some \<lparr>exit_code = 0, exit_time = t2,
                                   exit_log = log2 @ logged_by t2 (snd server)
                                              @ [(t2, ErrorDuringShutdown)]\<rparr>
                         | Some (Inr t2) \<Rightarrow>
                             (let warn2 = (if warn1 = [] \<and> timed_out (fst server) deadline
                                           then [(deadline, WarnShutdownTooLong)] else [])
                              in Some \<lparr>exit_code = 0, exit_time = t2,
                                       exit_log = log2 @ logged_by t2 (snd server) @ warn2
                                                  @ [(t2, SuccessShutdownComplete)]\<rparr>))))"

text \<open>\<open>shutdown()\<close> with the steps of this repository.\<close>

definition shutdown :: "nat \<Rightarrow> shutdown_env \<Rightarrow> process_exit option" where
  "shutdown start env =
     shutdown_sequence start None
       (fst (ros_shutdown start env), fst (snd (ros_shutdown start env)))
       (\<lambda>t. stopServer t (httpsServer env) (closeOutcome env))"

section \<open>Camera publishing\<close>

lemma split_no_separator: "c \<notin> set s \<Longrightarrow> split c s = [s]"
  by (induction s) auto

lemma split_prefix:
  "c \<notin> set pre \<Longrightarrow> c \<notin> set body \<Longrightarrow> split c (pre @ c # body) = [pre, body]"
  by (induction pre) (auto simp: split_no_separator)

lemma camera_message_with_prefix:
  assumes "CHR '','' \<notin> set pre" and "CHR '','' \<notin> set body"
    and "compressed pubs" and "cameraInfo pubs"
    and "setupCameraHandlers base64 pubs now
           (Some \<lparr>camera = Some (pre @ CHR '','' # body), msg_width = w, msg_height = h,
                  msg_timestamp = ts\<rparr>) bus = (err, bus')"
  shows "err = None \<and> length bus' = length bus + 2
         \<and> (\<exists>m. bus' ! length bus = PubCompressed m \<and> ci_data m = base64 body)"
  using assms
  by (auto simp: setupCameraHandlers_def split_prefix at_index_def buffer_from_def
      publishCameraData_def Let_def nth_append)

text \<open>
  C8. A camera sample of width 640 and height 480 puts exactly two messages on the bus:
  one compressed image tagged \<open>jpeg\<close> and one camera-info message with width 640,
  height 480 and \<open>k[2] = 320\<close>; both carry the same header, whose frame id is
  \<open>camera_frame\<close>, and the call returns true. When either of the two publishers is not
  initialised, the call returns false and the bus is left as it was.
\<close>

theorem publishCameraData_640_480:
  "(compressed pubs \<and> cameraInfo pubs \<longrightarrow>
      (\<exists>img info.
         publishCameraData pubs now imageBuffer 640 480 timestamp bus
           = (True, bus @ [PubCompressed img, PubCameraInfo info])
         \<and> ci_format img = ''jpeg'' \<and> ci_data img = imageBuffer
         \<and> info_width info = 640 \<and> info_height info = 480 \<and> info_k info ! 2 = 320
         \<and> ci_header img = info_header info
         \<and> frame_id (ci_header img) = ''camera_frame''
         \<and> hdr_stamp (ci_header img) = stamp_or_now timestamp now))
   \<and> (\<not> compressed pubs \<or> \<not> cameraInfo pubs \<longrightarrow>
        publishCameraData pubs now imageBuffer 640 480 timestamp bus = (False, bus))"
  by (simp add: publishCameraData_def Let_def)

theorem publishCameraData_640_480_witness:
  "publishCameraData \<lparr>compressed = True, cameraInfo = True, pose = False, microphone = False,
       imu = False, gps = False\<rparr> (0, 0) [1, 2, 3] 640 480 (Some \<lparr>sec = 7, nanosec = 0\<rparr>) []
     = (True,
        [PubCompressed \<lparr>ci_header = \<lparr>hdr_stamp = \<lparr>sec = 7, nanosec = 0\<rparr>,
                                     frame_id = ''camera_frame''\<rparr>,
                        ci_format = ''jpeg'', ci_data = [1, 2, 3]\<rparr>,
         PubCameraInfo
           \<lparr>info_header = \<lparr>hdr_stamp = \<lparr>sec = 7, nanosec = 0\<rparr>, frame_id = ''camera_frame''\<rparr>,
            info_height = 480, info_width = 640, distortion_model = ''plumb_bob'',
            info_d = [0, 0, 0, 0, 0], info_k = [640, 0, 320, 0, 480, 240, 0, 0, 1],
            info_r = [1, 0, 0, 0, 1, 0, 0, 0, 1],
            info_p = [640, 0, 320, 0, 0, 480, 240, 0, 0, 0, 1, 0],
            binning_x = 0, binning_y = 0,
            roi = \<lparr>x_offset = 0, y_offset = 0, roi_height = 480, roi_width = 640,
                   do_rectify = False\<rparr>\<rparr>])
   \<and> publishCameraData \<lparr>compressed = True, cameraInfo = False, pose = False,
       microphone = False, imu = False, gps = False\<rparr> (0, 0) [1, 2, 3] 640 480 None []
     = (False, [])"
  using publishCameraData_640_480
    [of "\<lparr>compressed = True, cameraInfo = True, pose = False, microphone = False,
          imu = False, gps = False\<rparr>" "(0, 0)" "[1, 2, 3]" "Some \<lparr>sec = 7, nanosec = 0\<rparr>" "[]"]
    publishCameraData_640_480
    [of "\<lparr>compressed = True, cameraInfo = False, pose = False, microphone = False,
          imu = False, gps = False\<rparr>" "(0, 0)" "[1, 2, 3]" None "[]"]
  by (simp add: publishCameraData_def Let_def stamp_or_now_def)

text \<open>
  C1 at a payload without a data-URL prefix. The handler takes the second piece of the
  payload split at commas. A bare base-64 string has one piece only, so the second is
  \<open>undefined\<close>, \<open>Buffer.from\<close> raises, the error is caught and logged, and nothing is
  published, whatever the publishers and the decoder.
\<close>

theorem camera_payload_without_prefix_dropped:
  "setupCameraHandlers base64 pubs now
     (Some \<lparr>camera = Some ''/9j/4AAQSkZJRg=='', msg_width = Num 640, msg_height = Num 480,
            msg_timestamp = Num 1000\<rparr>) bus
   = (Some TypeError, bus)"
  by (simp add: setupCameraHandlers_def at_index_def buffer_from_def)

section \<open>Inertial samples\<close>

lemma eulerToQuaternion_yaw_only:
  "eulerToQuaternion 0 0 yaw
     = \<lparr>qx = 0, qy = 0, qz = sin (yaw * pi / 180 * 0.5), qw = cos (yaw * pi / 180 * 0.5)\<rparr>"
  by (simp add: eulerToQuaternion_def Let_def)

text \<open>
  C2 as stated fails on the orientation: the server never reads the \<open>heading\<close> field of
  the magnetometer object. For a sample with heading 180 degrees and \<open>z = 0\<close> (an iOS
  compass heading with a relative \<open>alpha\<close> of 0) the orientation is not the yaw
  quaternion of 180 degrees.
\<close>

theorem imu_orientation_not_from_heading:
  "orientation (imuMsg (0, 0)
      \<lparr>accelerometer = \<lparr>acc_x = Num 0, acc_y = Num 0, acc_z = Num 0\<rparr>,
       gyroscope = \<lparr>alpha = Num 0, beta = Num 0, gamma = Num 0\<rparr>,
       magnetometer = \<lparr>heading = Num 180, mag_x = Num 0, mag_y = Num 0, mag_z = Num 0\<rparr>\<rparr>
      None)
   \<noteq> eulerToQuaternion 0 0 180"
  by (simp add: imuMsg_def eulerToQuaternion_def Let_def)

text \<open>
  C2, amended. For every inertial sample whose gyroscope readings are numbers, the IMU
  publisher being initialised, exactly one IMU message is published; its angular velocity
  is \<open>x = beta\<close>, \<open>y = alpha\<close>, \<open>z = gamma\<close>; its orientation is the quaternion that
  \<open>eulerToQuaternion\<close> gives for roll 0, pitch 0 and yaw the \<open>z\<close> component of the
  magnetometer object in degrees (0 when that is missing), which is the yaw-only
  quaternion \<open>(0, 0, sin (yaw/2), cos (yaw/2))\<close> of the angle in radians; and each of the
  three covariance arrays has nine entries, all \<open>-1\<close>.
\<close>

theorem publishIMUData_message:
  assumes "imu pubs"
    and "gyroscope s = \<lparr>alpha = Num a, beta = Num b, gamma = Num g\<rparr>"
  shows "\<exists>m. publishIMUData pubs now s timestamp bus = (True, bus @ [PubImu m])
     \<and> angular_velocity m = \<lparr>vx = b, vy = a, vz = g\<rparr>
     \<and> orientation m = eulerToQuaternion 0 0 (or_default (mag_z (magnetometer s)) 0)
     \<and> orientation m =
         \<lparr>qx = 0, qy = 0,
          qz = sin (or_default (mag_z (magnetometer s)) 0 * pi / 180 * 0.5),
          qw = cos (or_default (mag_z (magnetometer s)) 0 * pi / 180 * 0.5)\<rparr>
     \<and> orientation_covariance m = [-1, -1, -1, -1, -1, -1, -1, -1, -1]
     \<and> angular_velocity_covariance m = [-1, -1, -1, -1, -1, -1, -1, -1, -1]
     \<and> linear_acceleration_covariance m = [-1, -1, -1, -1, -1, -1, -1, -1, -1]"
proof -
  let ?m = "imuMsg now s timestamp"
  have pub: "publishIMUData pubs now s timestamp bus = (True, bus @ [PubImu ?m])"
    using assms(1) by (simp add: publishIMUData_def)
  have av: "angular_velocity ?m = \<lparr>vx = b, vy = a, vz = g\<rparr>"
    using assms(2) by (simp add: imuMsg_def Let_def)
  have ori: "orientation ?m = eulerToQuaternion 0 0 (or_default (mag_z (magnetometer s)) 0)"
    by (simp add: imuMsg_def Let_def)
  have cov: "replicate 9 (- 1 :: real) = [-1, -1, -1, -1, -1, -1, -1, -1, -1]"
    by (simp add: numeral_eq_Suc)
  have "orientation_covariance ?m = [-1, -1, -1, -1, -1, -1, -1, -1, -1]"
    and "angular_velocity_covariance ?m = [-1, -1, -1, -1, -1, -1, -1, -1, -1]"
    and "linear_acceleration_covariance ?m = [-1, -1, -1, -1, -1, -1, -1, -1, -1]"
    using cov by (simp_all add: imuMsg_def Let_def)
  with pub av ori show ?thesis
    using eulerToQuaternion_yaw_only [of "or_default (mag_z (magnetometer s)) 0"] by metis
qed

theorem publishIMUData_message_witness:
  "\<exists>m. publishIMUData \<lparr>compressed = False, cameraInfo = False, pose = False,
          microphone = False, imu = True, gps = False\<rparr> (0, 0)
        \<lparr>accelerometer = \<lparr>acc_x = Num 0, acc_y = Num 0, acc_z = Num 9.8\<rparr>,
         gyroscope = \<lparr>alpha = Num 1, beta = Num 2, gamma = Num 3\<rparr>,
         magnetometer = \<lparr>heading = Num 90, mag_x = Num 0, mag_y = Num 0, mag_z = Num 180\<rparr>\<rparr>
        None [] = (True, [PubImu m])
     \<and> angular_velocity m = \<lparr>vx = 2, vy = 1, vz = 3\<rparr>
     \<and> orientation m = \<lparr>qx = 0, qy = 0, qz = 1, qw = 0\<rparr>
     \<and> orientation_covariance m = [-1, -1, -1, -1, -1, -1, -1, -1, -1]"
  using publishIMUData_message
    [of "\<lparr>compressed = False, cameraInfo = False, pose = False, microphone = False,
          imu = True, gps = False\<rparr>"
        "\<lparr>accelerometer = \<lparr>acc_x = Num 0, acc_y = Num 0, acc_z = Num 9.8\<rparr>,
         gyroscope = \<lparr>alpha = Num 1, beta = Num 2, gamma = Num 3\<rparr>,
         magnetometer = \<lparr>heading = Num 90, mag_x = Num 0, mag_y = Num 0, mag_z = Num 180\<rparr>\<rparr>"
        1 2 3 "(0, 0)" None "[]"]
  by simp blast

section \<open>Geo-fix samples\<close>

text \<open>
  C3 as stated fails at a reported accuracy of 0: the variance published is 1, not
  \<open>0\<^sup>2\<close>.
\<close>

theorem gps_covariance_accuracy_zero:
  "position_covariance (navSatFixMsg (0, 0)
      \<lparr>gps_latitude = Num 52, gps_longitude = Num 13, gps_altitude = Num 34,
       gps_accuracy = Num 0, gps_heading = Null, gps_speed = Null,
       gps_timestamp = Num 1000\<rparr> None) ! 0 \<noteq> 0 * 0"
  by (simp add: navSatFixMsg_def Let_def numeral_eq_Suc)

text \<open>
  C3, amended. For every geo-fix sample the NavSatFix message, published exactly when the
  GPS publisher is initialised, has a position covariance of nine entries whose diagonal
  (indices 0, 4, 8) is the square of the accuracy and whose other entries are 0, where a
  missing, null, NaN or zero accuracy counts as 1.0; its altitude is the input altitude,
  or 0 when that is missing, null or NaN; its fix status is 0 and its service flag is 1.
\<close>

theorem publishGPSData_message:
  "publishGPSData pubs now s timestamp bus
     = (if gps pubs then (True, bus @ [PubGps (navSatFixMsg now s timestamp)]) else (False, bus))
   \<and> position_covariance (navSatFixMsg now s timestamp)
     = (let v = (case gps_accuracy s of Num a \<Rightarrow> if a = 0 then 1 else a * a | _ \<Rightarrow> 1)
        in [v, 0, 0, 0, v, 0, 0, 0, v])
   \<and> altitude (navSatFixMsg now s timestamp)
     = (case gps_altitude s of Num h \<Rightarrow> h | _ \<Rightarrow> 0)
   \<and> fix_status (navSatFixMsg now s timestamp) = \<lparr>status = 0, service = 1\<rparr>"
proof -
  have upd: "(replicate 9 (0::real))[0 := v, 4 := v, 8 := v] = [v, 0, 0, 0, v, 0, 0, 0, v]"
    for v by (simp add: numeral_eq_Suc)
  have cov: "position_covariance (navSatFixMsg now s timestamp)
     = (let v = (case gps_accuracy s of Num a \<Rightarrow> if a = 0 then 1 else a * a | _ \<Rightarrow> 1)
        in [v, 0, 0, 0, v, 0, 0, 0, v])"
    by (cases "gps_accuracy s") (simp_all add: navSatFixMsg_def Let_def upd)
  have alt: "altitude (navSatFixMsg now s timestamp)
     = (case gps_altitude s of Num h \<Rightarrow> h | _ \<Rightarrow> 0)"
    by (cases "gps_altitude s") (simp_all add: navSatFixMsg_def Let_def)
  show ?thesis
    using cov alt by (simp add: publishGPSData_def navSatFixMsg_def Let_def)
qed

section \<open>The WAV header of the audio player\<close>

lemma le_bytes32:
  assumes "(w::nat) < 2 ^ 32"
  shows "w mod 256 + 256 * (w div 256 mod 256) + 65536 * (w div 65536 mod 256)
     + 16777216 * (w div 16777216 mod 256) = w"
proof -
  define a where "a = w div 256"
  define b where "b = a div 256"
  define c where "c = b div 256"
  have b: "w div 65536 = b"
    unfolding b_def a_def by (simp add: div_mult2_eq [symmetric])
  have c: "w div 16777216 = c"
    unfolding c_def b_def a_def by (simp add: div_mult2_eq [symmetric])
  have "c < 256"
    using assms unfolding c [symmetric] by (simp add: div_less_iff_less_mult)
  then have 4: "c mod 256 = c" by simp
  have 1: "w = w mod 256 + 256 * a" unfolding a_def by simp
  have 2: "a = a mod 256 + 256 * b" unfolding b_def by simp
  have 3: "b = b mod 256 + 256 * c" unfolding c_def by simp
  have "w mod 256 + 256 * (a mod 256) + 65536 * (b mod 256) + 16777216 * c = w"
    using 1 2 3 by linarith
  then show ?thesis
    using 4 b c a_def by simp
qed

lemma unat_byte: "unat (of_nat n :: byte) = n mod 256"
  by (simp add: unat_of_nat)

lemma list_update_Cons_numeral:
  "(x # xs)[numeral n := y] = x # xs[pred_numeral n := y]"
  by (simp add: numeral_eq_Suc)

lemma replicate_44:
  "replicate 44 (0::byte) =
     [0, 0, 0, 0, 0, 0, 0, 0, 0, 0, 0, 0, 0, 0, 0, 0, 0, 0, 0, 0, 0, 0,
      0, 0, 0, 0, 0, 0, 0, 0, 0, 0, 0, 0, 0, 0, 0, 0, 0, 0, 0, 0, 0, 0]"
  by (simp add: numeral_eq_Suc)

lemma wavHeader_bytes:
  "wavHeader n =
     [82, 73, 70, 70,
      of_nat ((36 + n) mod 2 ^ 32), of_nat ((36 + n) mod 2 ^ 32 div 256),
      of_nat ((36 + n) mod 2 ^ 32 div 65536), of_nat ((36 + n) mod 2 ^ 32 div 16777216),
      87, 65, 86, 69,
      102, 109, 116, 32,
      16, 0, 0, 0,
      1, 0, 1, 0,
      128, 187, 0, 0,
      0, 119, 1, 0,
      2, 0, 16, 0,
      100, 97, 116, 97,
      of_nat (n mod 2 ^ 32), of_nat (n mod 2 ^ 32 div 256),
      of_nat (n mod 2 ^ 32 div 65536), of_nat (n mod 2 ^ 32 div 16777216)]"
  unfolding wavHeader_def Let_def replicate_44
  by (simp add: setUint8_def setUint16_def setUint32_def charCodeAt0_def Let_def
      list_update_Cons_numeral)

lemma length_wavHeader: "length (wavHeader n) = 44"
  by (simp add: wavHeader_bytes)

lemma addWavHeader_data_length:
  "getUint32 (addWavHeader a) 40 = length a mod 2 ^ 32"
proof -
  let ?w = "length a mod 2 ^ 32"
  have "getUint32 (addWavHeader a) 40 = getUint32 (wavHeader (length a)) 40"
    by (simp add: getUint32_def addWavHeader_def nth_append length_wavHeader)
  also have "\<dots> = ?w mod 256 + 256 * (?w div 256 mod 256) + 65536 * (?w div 65536 mod 256)
     + 16777216 * (?w div 16777216 mod 256)"
    by (simp add: getUint32_def wavHeader_bytes unat_byte)
  also have "\<dots> = ?w"
    by (rule le_bytes32) simp
  finally show ?thesis .
qed

lemma addWavHeader_format:
  "getUint16 (addWavHeader a) 20 = 1 \<and> getUint16 (addWavHeader a) 22 = 1
   \<and> getUint32 (addWavHeader a) 24 = 48000 \<and> getUint32 (addWavHeader a) 28 = 96000
   \<and> getUint16 (addWavHeader a) 32 = 2 \<and> getUint16 (addWavHeader a) 34 = 16"
  by (simp add: getUint16_def getUint32_def addWavHeader_def nth_append wavHeader_bytes)

lemma take4_eq:
  "take 4 xs = [a, b, c, e]
     \<longleftrightarrow> 4 \<le> length xs \<and> xs ! 0 = a \<and> xs ! 1 = b \<and> xs ! 2 = c \<and> xs ! 3 = e"
proof (cases xs)
  case Nil
  then show ?thesis by simp
next
  case c0: (Cons x0 xs1)
  show ?thesis
  proof (cases xs1)
    case Nil
    with c0 show ?thesis by simp
  next
    case c1: (Cons x1 xs2)
    show ?thesis
    proof (cases xs2)
      case Nil
      with c0 c1 show ?thesis by simp
    next
      case c2: (Cons x2 xs3)
      show ?thesis
      proof (cases xs3)
        case Nil
        with c0 c1 c2 show ?thesis by simp
      next
        case (Cons x3 xs4)
        with c0 c1 c2 show ?thesis by (auto simp: numeral_eq_Suc)
      qed
    qed
  qed
qed

lemma has_riff_wave_header_iff:
  "has_riff_wave_header buf \<longleftrightarrow>
     12 \<le> length buf
     \<and> buf ! 0 = 82 \<and> buf ! 1 = 73 \<and> buf ! 2 = 70 \<and> buf ! 3 = 70
     \<and> buf ! 8 = 87 \<and> buf ! 9 = 65 \<and> buf ! 10 = 86 \<and> buf ! 11 = 69"
  by (auto simp: has_riff_wave_header_def ascii_def take4_eq)

lemma processAudioData_cases:
  "processAudioData a = (if has_riff_wave_header a then a else addWavHeader a)"
  by (auto simp: processAudioData_def has_riff_wave_header_iff Let_def)

text \<open>
  C4 as stated fails on the data-length field for a buffer of \<open>2\<^sup>3\<^sup>2\<close> bytes or more:
  \<open>setUint32\<close> keeps the low 32 bits of the length. A buffer of \<open>2\<^sup>3\<^sup>2 + 5\<close> zero
  bytes has no header, and the field written for it holds 5.
\<close>

theorem wav_data_length_wraps:
  "getUint32 (processAudioData (replicate (2 ^ 32 + 5) 0)) 40
     \<noteq> length (replicate (2 ^ 32 + 5) (0 :: byte))"
proof -
  have "\<not> has_riff_wave_header (replicate (2 ^ 32 + 5) (0 :: byte))"
    by (simp add: has_riff_wave_header_iff)
  then have "getUint32 (processAudioData (replicate (2 ^ 32 + 5) 0)) 40
      = length (replicate (2 ^ 32 + 5) (0 :: byte)) mod 2 ^ 32"
    by (simp only: processAudioData_cases if_False addWavHeader_data_length)
  then show ?thesis by simp
qed

text \<open>
  C4, amended. An audio buffer without a RIFF/WAVE container header gets exactly 44
  bytes put in front of it, and the original bytes follow unchanged. The 44 bytes are a
  RIFF/WAVE header for PCM (format 1), one channel, 48000 samples per second, 96000
  bytes per second, block size 2 and 16 bits per sample. The little-endian 32-bit
  data-length field at bytes 40 to 43 holds the byte length of the original buffer
  modulo \<open>2\<^sup>3\<^sup>2\<close>, which is the byte length itself for every buffer shorter than
  \<open>2\<^sup>3\<^sup>2\<close> bytes. A buffer that has the header already is handed on as it is.
\<close>

theorem processAudioData_wav_header:
  "(\<not> has_riff_wave_header a \<longrightarrow>
      length (processAudioData a) = 44 + length a
      \<and> drop 44 (processAudioData a) = a
      \<and> has_riff_wave_header (processAudioData a)
      \<and> getUint16 (processAudioData a) 20 = 1
      \<and> getUint16 (processAudioData a) 22 = 1
      \<and> getUint32 (processAudioData a) 24 = 48000
      \<and> getUint32 (processAudioData a) 28 = 96000
      \<and> getUint16 (processAudioData a) 32 = 2
      \<and> getUint16 (processAudioData a) 34 = 16
      \<and> getUint32 (processAudioData a) 40 = length a mod 2 ^ 32
      \<and> (length a < 2 ^ 32 \<longrightarrow> getUint32 (processAudioData a) 40 = length a))
   \<and> (has_riff_wave_header a \<longrightarrow> processAudioData a = a)"
proof -
  have hdr: "has_riff_wave_header (addWavHeader a)"
    by (simp add: has_riff_wave_header_iff addWavHeader_def nth_append wavHeader_bytes)
  have len: "length (addWavHeader a) = 44 + length a"
    and data: "drop 44 (addWavHeader a) = a"
    by (simp_all add: addWavHeader_def length_wavHeader)
  have size: "length a < 2 ^ 32 \<longrightarrow> getUint32 (addWavHeader a) 40 = length a"
    by (simp add: addWavHeader_data_length)
  show ?thesis
    using hdr len data size addWavHeader_format [of a] addWavHeader_data_length [of a]
    by (simp add: processAudioData_cases)
qed

theorem processAudioData_wav_header_witness:
  "\<not> has_riff_wave_header [1, 2, 3]
   \<and> processAudioData [1, 2, 3] = addWavHeader [1, 2, 3]
   \<and> length (processAudioData [1, 2, 3]) = 47
   \<and> getUint32 (processAudioData [1, 2, 3]) 40 = 3
   \<and> has_riff_wave_header (ascii ''RIFF____WAVEfmt '')
   \<and> processAudioData (ascii ''RIFF____WAVEfmt '') = ascii ''RIFF____WAVEfmt ''"
  using processAudioData_wav_header [of "[1, 2, 3]"]
    processAudioData_wav_header [of "ascii ''RIFF____WAVEfmt ''"]
  by (simp add: has_riff_wave_header_iff processAudioData_cases ascii_def)

section \<open>Fan-out from the bus to the peers\<close>

lemma count_active_filter:
  "count_active clients n = n + length (filter (\<lambda>c. readyState c = OPEN) clients)"
  by (induction clients arbitrary: n) simp_all

lemma tts_forward_deliver:
  "tts_forward msg_data clients = Inr (map (deliver (Text msg_data)) clients)"
  by (induction clients) (simp_all add: send_def deliver_def)

lemma wav_forward_deliver:
  "wav_forward buffer clients n
     = (map (deliver (Binary buffer)) clients,
        n + length (filter (\<lambda>c. readyState c = OPEN) clients), None)"
  by (induction clients arbitrary: n) (simp_all add: send_def deliver_def)

text \<open>
  C6. A message arriving on the TTS subscription is sent, as the literal text, to every
  peer of the speech-output channel that is open at that moment; a message arriving on
  either WAV subscription is sent, as the literal bytes, to every open peer of the audio
  channel, and the two subscriptions do the same. Peers that are not open are passed over
  and stay as they were; no error arises. A peer that connects afterwards starts with
  its greeting only: nothing of the earlier send reaches it.
\<close>

theorem fan_out_to_open_peers:
  "tts_subscription text ttsPeers
     = (length (filter (\<lambda>c. readyState c = OPEN) ttsPeers),
        Inr (map (deliver (Text text)) ttsPeers))
   \<and> fst (tts_wav_subscription bytes wavPeers) = map (deliver (Binary bytes)) wavPeers
   \<and> fst (wav_bytes_subscription bytes wavPeers) = map (deliver (Binary bytes)) wavPeers
   \<and> (\<forall>e. ErrorProcessingAudio e \<notin> set (snd (tts_wav_subscription bytes wavPeers))
          \<and> ErrorProcessingAudio e \<notin> set (snd (wav_bytes_subscription bytes wavPeers)))
   \<and> tts_connection (map (deliver (Text text)) ttsPeers)
     = map (deliver (Text text)) ttsPeers
       @ [\<lparr>readyState = OPEN, sent = [Text ''TTS system ready'']\<rparr>]
   \<and> wavAudio_connection (map (deliver (Binary bytes)) wavPeers)
     = Inr (map (deliver (Binary bytes)) wavPeers
            @ [\<lparr>readyState = OPEN,
                sent = [Json (StatusPayload ''connected'' ''Ready to receive audio data''
                               ''active'')]\<rparr>])"
  by (simp add: tts_subscription_def tts_wav_subscription_def wav_bytes_subscription_def
      count_active_filter tts_forward_deliver wav_forward_deliver tts_connection_def
      wavAudio_connection_def send_def Let_def)

text \<open>
  C10. On either WAV subscription the server sends the bytes of the bus message to the
  open peers as they are, whether or not they start with a RIFF/WAVE header: the result
  of the header test reaches a log line at most. For a buffer without the header, what
  the peers get is therefore not the buffer with a header in front; the 44 header bytes
  are added by \<open>processAudioData\<close> in the browser.
\<close>

theorem wav_bytes_forwarded_verbatim:
  "fst (tts_wav_subscription bytes peers) = map (deliver (Binary bytes)) peers
   \<and> fst (wav_bytes_subscription bytes peers) = map (deliver (Binary bytes)) peers
   \<and> Binary bytes \<noteq> Binary (addWavHeader bytes)
   \<and> (if hasWavHeader bytes then processAudioData bytes = bytes
       else processAudioData bytes = addWavHeader bytes
            \<and> length (processAudioData bytes) = 44 + length bytes)"
proof -
  have "length (addWavHeader bytes) \<noteq> length bytes"
    by (simp add: addWavHeader_def length_wavHeader)
  then have neq: "addWavHeader bytes \<noteq> bytes" by auto
  have same: "hasWavHeader bytes = has_riff_wave_header bytes"
    by (simp add: hasWavHeader_def has_riff_wave_header_iff)
  show ?thesis
    using neq
    by (simp add: tts_wav_subscription_def wav_bytes_subscription_def wav_forward_deliver
        Let_def same processAudioData_cases addWavHeader_def length_wavHeader)
qed

section \<open>Sends on a connection that is not open\<close>

lemma tts_forward_none_open:
  "\<forall>c \<in> set clients. readyState c \<noteq> OPEN \<Longrightarrow> map (deliver payload) clients = clients"
  by (induction clients) (simp_all add: deliver_def)

text \<open>
  C7. A send on a connection that is not open does nothing. On the producer side
  (IMU samples, camera frames of both camera managers, pose, GPS, transcriptions) the
  socket is left as it was, nothing is queued, and no error is raised or logged. This
  holds too for the camera frame whose socket was open at the test and began closing or
  got closed while the frame was being encoded: the send that follows without a second
  test is made on a socket that is not open, and it drops the frame, raises nothing and
  queues nothing. On the server side, when no peer of a channel is open, which includes
  a channel without peers, the fan-out of the three bus subscriptions leaves every peer
  as it was, raises no error, counts no client, and writes no forwarding log line.
\<close>

theorem send_not_open_is_noop:
  "(not_open (socket_of imuManager) \<longrightarrow> sendSensorData now imuManager = (None, imuManager))
   \<and> (not_open cameraWs \<longrightarrow>
        processFrames_send now encoded w h event cameraWs = (None, cameraWs))
   \<and> (readyState sock = OPEN \<and> event \<noteq> StaysOpen \<longrightarrow>
        readyState (during_await event sock) \<noteq> OPEN
        \<and> send (during_await event sock) (Json (CameraPayload now dataUrl w h))
            = Inr (during_await event sock)
        \<and> processFrames_send now (Inr dataUrl) w h event (Some sock)
            = (None, Some (during_await event sock))
        \<and> sent (during_await event sock) = sent sock)
   \<and> (not_open poseWs \<longrightarrow> pose_send now pos ori poseWs = Inr poseWs)
   \<and> (not_open (gps_ws gpsManager) \<longrightarrow> sendGPSData gpsManager = (None, gpsManager))
   \<and> (not_open microphoneWs \<longrightarrow> transcription_send now prompt microphoneWs = Inr microphoneWs)
   \<and> (not_open iosWs \<longrightarrow>
        captureInterval_send now ready vw vh frame w h iosWs = (None, iosWs))
   \<and> ((\<forall>c \<in> set peers. readyState c \<noteq> OPEN) \<longrightarrow>
        tts_subscription msg peers = (0, Inr peers)
        \<and> tts_wav_subscription bytes peers = (peers, [])
        \<and> wav_bytes_subscription bytes peers = (peers, []))
   \<and> tts_subscription msg [] = (0, Inr [])
   \<and> tts_wav_subscription bytes [] = ([], [])
   \<and> wav_bytes_subscription bytes [] = ([], [])"
proof -
  have server: "tts_subscription msg peers = (0, Inr peers)
        \<and> tts_wav_subscription bytes peers = (peers, [])
        \<and> wav_bytes_subscription bytes peers = (peers, [])"
    if "\<forall>c \<in> set peers. readyState c \<noteq> OPEN" for peers
  proof -
    have "filter (\<lambda>c. readyState c = OPEN) peers = []"
      using that by (simp add: filter_empty_conv)
    then show ?thesis
      using tts_forward_none_open [OF that]
      by (simp add: tts_subscription_def tts_wav_subscription_def wav_bytes_subscription_def
          count_active_filter tts_forward_deliver wav_forward_deliver Let_def)
  qed
  have imu: "sendSensorData now imuManager = (None, imuManager)"
    if "not_open (socket_of imuManager)"
    using that by (auto simp: sendSensorData_def not_open_def split: option.splits)
  have cam: "processFrames_send now encoded w h event cameraWs = (None, cameraWs)"
    if "not_open cameraWs"
    using that by (auto simp: processFrames_send_def not_open_def split: option.splits)
  have late: "readyState (during_await event sock) \<noteq> OPEN
        \<and> send (during_await event sock) (Json (CameraPayload now dataUrl w h))
            = Inr (during_await event sock)
        \<and> processFrames_send now (Inr dataUrl) w h event (Some sock)
            = (None, Some (during_await event sock))
        \<and> sent (during_await event sock) = sent sock"
    if "readyState sock = OPEN" "event \<noteq> StaysOpen"
    using that by (cases event) (simp_all add: processFrames_send_def send_def)
  have pos: "pose_send now pos ori poseWs = Inr poseWs" if "not_open poseWs"
    using that by (auto simp: pose_send_def not_open_def split: option.splits)
  have gps: "sendGPSData gpsManager = (None, gpsManager)" if "not_open (gps_ws gpsManager)"
    using that by (auto simp: sendGPSData_def not_open_def split: option.splits)
  have mic: "transcription_send now prompt microphoneWs = Inr microphoneWs"
    if "not_open microphoneWs"
    using that by (auto simp: transcription_send_def not_open_def split: option.splits)
  have ios: "captureInterval_send now ready vw vh frame w h iosWs = (None, iosWs)"
    if "not_open iosWs"
    using that by (auto simp: captureInterval_send_def not_open_def split: option.splits)
  show ?thesis
    using imu cam late pos gps mic ios server [of peers] server [of "[]"] by simp
qed

theorem send_not_open_is_noop_witness:
  "not_open (socket_of \<lparr>isActive = True, ws = Some \<lparr>readyState = CLOSED, sent = []\<rparr>,
       websocket = None,
       accelerometerData = \<lparr>acc_x = Num 0, acc_y = Num 0, acc_z = Num 0\<rparr>,
       gyroscopeData = \<lparr>alpha = Num 0, beta = Num 0, gamma = Num 0\<rparr>,
       magnetometerData = \<lparr>heading = Num 0, mag_x = Num 0, mag_y = Num 0, mag_z = Num 0\<rparr>\<rparr>)
   \<and> sendSensorData 5 \<lparr>isActive = True, ws = Some \<lparr>readyState = CLOSED, sent = []\<rparr>,
       websocket = None,
       accelerometerData = \<lparr>acc_x = Num 0, acc_y = Num 0, acc_z = Num 0\<rparr>,
       gyroscopeData = \<lparr>alpha = Num 0, beta = Num 0, gamma = Num 0\<rparr>,
       magnetometerData = \<lparr>heading = Num 0, mag_x = Num 0, mag_y = Num 0, mag_z = Num 0\<rparr>\<rparr>
     = (None, \<lparr>isActive = True, ws = Some \<lparr>readyState = CLOSED, sent = []\<rparr>,
       websocket = None,
       accelerometerData = \<lparr>acc_x = Num 0, acc_y = Num 0, acc_z = Num 0\<rparr>,
       gyroscopeData = \<lparr>alpha = Num 0, beta = Num 0, gamma = Num 0\<rparr>,
       magnetometerData = \<lparr>heading = Num 0, mag_x = Num 0, mag_y = Num 0, mag_z = Num 0\<rparr>\<rparr>)
   \<and> not_open (Some \<lparr>readyState = CLOSING, sent = []\<rparr>)
   \<and> processFrames_send 5 (Inr ''data:image/jpeg;base64,AAAA'') 640 480 GetsClosed
        (Some \<lparr>readyState = CLOSING, sent = []\<rparr>)
     = (None, Some \<lparr>readyState = CLOSING, sent = []\<rparr>)
   \<and> readyState \<lparr>readyState = OPEN, sent = [Text ''x'']\<rparr> = OPEN
   \<and> GetsClosed \<noteq> StaysOpen
   \<and> processFrames_send 5 (Inr ''data:image/jpeg;base64,AAAA'') 640 480 GetsClosed
        (Some \<lparr>readyState = OPEN, sent = [Text ''x'']\<rparr>)
     = (None, Some \<lparr>readyState = CLOSED, sent = [Text ''x'']\<rparr>)
   \<and> not_open None
   \<and> pose_send 5 \<lparr>vx = 0, vy = 0, vz = 0\<rparr> \<lparr>qx = 0, qy = 0, qz = 0, qw = 1\<rparr> None = Inr None
   \<and> not_open (gps_ws \<lparr>gps_isActive = True,
        gps_ws = Some \<lparr>readyState = CONNECTING, sent = []\<rparr>,
        gpsData = \<lparr>gps_latitude = Num 0, gps_longitude = Num 0, gps_altitude = Null,
                   gps_accuracy = Num 0, gps_heading = Null, gps_speed = Null,
                   gps_timestamp = Num 0\<rparr>\<rparr>)
   \<and> sendGPSData \<lparr>gps_isActive = True,
        gps_ws = Some \<lparr>readyState = CONNECTING, sent = []\<rparr>,
        gpsData = \<lparr>gps_latitude = Num 0, gps_longitude = Num 0, gps_altitude = Null,
                   gps_accuracy = Num 0, gps_heading = Null, gps_speed = Null,
                   gps_timestamp = Num 0\<rparr>\<rparr>
     = (None, \<lparr>gps_isActive = True,
        gps_ws = Some \<lparr>readyState = CONNECTING, sent = []\<rparr>,
        gpsData = \<lparr>gps_latitude = Num 0, gps_longitude = Num 0, gps_altitude = Null,
                   gps_accuracy = Num 0, gps_heading = Null, gps_speed = Null,
                   gps_timestamp = Num 0\<rparr>\<rparr>)
   \<and> transcription_send 5 ''go'' None = Inr None
   \<and> not_open (Some \<lparr>readyState = CLOSED, sent = []\<rparr>)
   \<and> captureInterval_send 5 True 640 480 ''data:image/jpeg;base64,AAAA'' 640 480
        (Some \<lparr>readyState = CLOSED, sent = []\<rparr>)
     = (None, Some \<lparr>readyState = CLOSED, sent = []\<rparr>)
   \<and> readyState \<lparr>readyState = CLOSED, sent = []\<rparr> \<noteq> OPEN
   \<and> readyState \<lparr>readyState = CONNECTING, sent = []\<rparr> \<noteq> OPEN
   \<and> tts_subscription ''Hello''
        [\<lparr>readyState = CLOSED, sent = []\<rparr>, \<lparr>readyState = CONNECTING, sent = []\<rparr>]
     = (0, Inr [\<lparr>readyState = CLOSED, sent = []\<rparr>, \<lparr>readyState = CONNECTING, sent = []\<rparr>])
   \<and> tts_wav_subscription [1, 2]
        [\<lparr>readyState = CLOSED, sent = []\<rparr>, \<lparr>readyState = CONNECTING, sent = []\<rparr>]
     = ([\<lparr>readyState = CLOSED, sent = []\<rparr>, \<lparr>readyState = CONNECTING, sent = []\<rparr>], [])"
  using send_not_open_is_noop
    [where imuManager = "\<lparr>isActive = True, ws = Some \<lparr>readyState = CLOSED, sent = []\<rparr>,
       websocket = None,
       accelerometerData = \<lparr>acc_x = Num 0, acc_y = Num 0, acc_z = Num 0\<rparr>,
       gyroscopeData = \<lparr>alpha = Num 0, beta = Num 0, gamma = Num 0\<rparr>,
       magnetometerData = \<lparr>heading = Num 0, mag_x = Num 0, mag_y = Num 0, mag_z = Num 0\<rparr>\<rparr>"
      and now = 5 and cameraWs = "Some \<lparr>readyState = CLOSING, sent = []\<rparr>"
      and encoded = "Inr ''data:image/jpeg;base64,AAAA''" and w = 640 and h = 480
      and event = GetsClosed and sock = "\<lparr>readyState = OPEN, sent = [Text ''x'']\<rparr>"
      and dataUrl = "''data:image/jpeg;base64,AAAA''"
      and poseWs = None and pos = "\<lparr>vx = 0, vy = 0, vz = 0\<rparr>"
      and ori = "\<lparr>qx = 0, qy = 0, qz = 0, qw = 1\<rparr>"
      and gpsManager = "\<lparr>gps_isActive = True,
        gps_ws = Some \<lparr>readyState = CONNECTING, sent = []\<rparr>,
        gpsData = \<lparr>gps_latitude = Num 0, gps_longitude = Num 0, gps_altitude = Null,
                   gps_accuracy = Num 0, gps_heading = Null, gps_speed = Null,
                   gps_timestamp = Num 0\<rparr>\<rparr>"
      and microphoneWs = None and prompt = "''go''"
      and iosWs = "Some \<lparr>readyState = CLOSED, sent = []\<rparr>" and ready = True
      and vw = 640 and vh = 480 and frame = "''data:image/jpeg;base64,AAAA''"
      and peers = "[\<lparr>readyState = CLOSED, sent = []\<rparr>, \<lparr>readyState = CONNECTING, sent = []\<rparr>]"
      and msg = "''Hello''" and bytes = "[1, 2]"]
  by (simp add: not_open_def socket_of_def)

section \<open>Reconnection\<close>




section \<open>Shutdown\<close>

lemma await_race_deadline:
  "\<exists>t. (await now (race p (Resolves deadline)) = Some (Inl t)
         \<or> await now (race p (Resolves deadline)) = Some (Inr t))
       \<and> now \<le> t \<and> t \<le> max now deadline"
  by (cases p) (auto simp: race_def)

lemma shutdown_sequence_exits:
  "\<exists>x. shutdown_sequence start closeAll rosStep serverStep = Some x
       \<and> exit_code x = 0 \<and> start \<le> exit_time x \<and> exit_time x \<le> start + 3000"
proof (cases closeAll)
  case (Some e)
  then show ?thesis by (simp add: shutdown_sequence_def)
next
  case None
  obtain t1 where t1: "await start (race (fst rosStep) (Resolves (start + 3000))) = Some (Inl t1)
         \<or> await start (race (fst rosStep) (Resolves (start + 3000))) = Some (Inr t1)"
    and b1: "start \<le> t1" "t1 \<le> start + 3000"
    using await_race_deadline [of start "fst rosStep" "start + 3000"] by auto
  from t1 show ?thesis
  proof
    assume "await start (race (fst rosStep) (Resolves (start + 3000))) = Some (Inl t1)"
    with None b1 show ?thesis by (simp add: shutdown_sequence_def Let_def)
  next
    assume r1: "await start (race (fst rosStep) (Resolves (start + 3000))) = Some (Inr t1)"
    obtain t2 where t2:
      "await t1 (race (fst (serverStep t1)) (Resolves (start + 3000))) = Some (Inl t2)
         \<or> await t1 (race (fst (serverStep t1)) (Resolves (start + 3000))) = Some (Inr t2)"
      and b2: "t1 \<le> t2" "t2 \<le> max t1 (start + 3000)"
      using await_race_deadline [of t1 "fst (serverStep t1)" "start + 3000"] by auto
    from b1 b2 have b: "start \<le> t2" "t2 \<le> start + 3000" by auto
    from t2 show ?thesis
    proof
      assume "await t1 (race (fst (serverStep t1)) (Resolves (start + 3000))) = Some (Inl t2)"
      with None r1 b show ?thesis by (simp add: shutdown_sequence_def Let_def)
    next
      assume "await t1 (race (fst (serverStep t1)) (Resolves (start + 3000))) = Some (Inr t2)"
      with None r1 b show ?thesis by (simp add: shutdown_sequence_def Let_def)
    qed
  qed
qed

lemma shutdown_exits:
  "\<exists>x. shutdown start env = Some x \<and> exit_code x = 0 \<and> exit_time x \<le> start + 2000
       \<and> last (exit_log x) = (exit_time x, SuccessShutdownComplete)
       \<and> (\<not> isShutdown env \<and> rclShutdownRaises env
            \<longrightarrow> (start, ErrorRosShutdown) \<in> set (exit_log x))
       \<and> (httpsServer env \<and> closeOutcome env = CloseRaises
            \<longrightarrow> (start, ErrorExceptionStoppingServer) \<in> set (exit_log x))
       \<and> (httpsServer env \<and> closeOutcome env = NeverCallsBack
            \<longrightarrow> exit_time x = start + 2000
                \<and> (start + 2000, WarnServerCloseTimedOut) \<in> set (exit_log x))
       \<and> (\<forall>d. httpsServer env \<and> closeOutcome env = CallsBack d True \<and> d < 2000
            \<longrightarrow> exit_time x = start + d
                \<and> (start + d, ErrorStoppingServer) \<in> set (exit_log x))"
  by (cases "closeOutcome env")
    (auto simp: shutdown_def shutdown_sequence_def ros_shutdown_def stopServer_def race_def
      logged_by_def timed_out_def Let_def)

text \<open>
  C9. Whatever the steps do, the shutdown reaches \<open>process.exit(0)\<close>, and not later than
  3000 ms of event-loop time after it began: each awaited step is raced against the
  3000 ms timer, so a step whose promise is never settled (or is rejected, or a raise
  while closing the sockets) cannot keep the function from its end. With the steps of
  this repository the exit comes within 2000 ms, and the last line logged is
  \<open>Application shutdown complete\<close>: a raise of the ROS shutdown, an error or a raise of
  \<open>server.close\<close>, and a \<open>server.close\<close> that never calls back are each logged and the
  sequence goes on.
\<close>

theorem shutdown_terminates:
  "(\<exists>x. shutdown_sequence start closeAll rosStep serverStep = Some x
        \<and> exit_code x = 0 \<and> exit_time x \<le> start + 3000)
   \<and> (\<exists>x. shutdown start env = Some x \<and> exit_code x = 0 \<and> exit_time x \<le> start + 2000
        \<and> last (exit_log x) = (exit_time x, SuccessShutdownComplete)
        \<and> (\<not> isShutdown env \<and> rclShutdownRaises env
             \<longrightarrow> (start, ErrorRosShutdown) \<in> set (exit_log x))
        \<and> (httpsServer env \<and> closeOutcome env = CloseRaises
             \<longrightarrow> (start, ErrorExceptionStoppingServer) \<in> set (exit_log x))
        \<and> (httpsServer env \<and> closeOutcome env = NeverCallsBack
             \<longrightarrow> exit_time x = start + 2000
                 \<and> (start + 2000, WarnServerCloseTimedOut) \<in> set (exit_log x))
        \<and> (\<forall>d. httpsServer env \<and> closeOutcome env = CallsBack d True \<and> d < 2000
             \<longrightarrow> exit_time x = start + d
                 \<and> (start + d, ErrorStoppingServer) \<in> set (exit_log x)))"
  using shutdown_sequence_exits [of start closeAll rosStep serverStep] shutdown_exits [of start env]
  by blast

theorem shutdown_terminates_witness:
  "shutdown 0 \<lparr>rosNode = True,
      rosPublishers = \<lparr>compressed = True, cameraInfo = True, pose = True, microphone = True,
                       imu = True, gps = True\<rparr>,
      isShutdown = False, rclShutdownRaises = True, httpsServer = True,
      closeOutcome = NeverCallsBack\<rparr>
   = Some \<lparr>exit_code = 0, exit_time = 2000,
       exit_log = [(0, HeaderShuttingDown), (0, InfoAllNodesDeactivated),
                   (0, InfoRosShuttingDown), (0, ErrorRosShutdown),
                   (2000, WarnServerCloseTimedOut), (2000, SuccessShutdownComplete)]\<rparr>
   \<and> shutdown_sequence 0 None (Never, []) (\<lambda>t. (Never, []))
     = Some \<lparr>exit_code = 0, exit_time = 3000,
         exit_log = [(0, HeaderShuttingDown), (0, InfoAllNodesDeactivated),
                     (3000, WarnShutdownTooLong), (3000, SuccessShutdownComplete)]\<rparr>"
  using shutdown_terminates
    [of 0 None "(Never, [])" "\<lambda>t. (Never, [])"
      "\<lparr>rosNode = True,
        rosPublishers = \<lparr>compressed = True, cameraInfo = True, pose = True, microphone = True,
                         imu = True, gps = True\<rparr>,
        isShutdown = False, rclShutdownRaises = True, httpsServer = True,
        closeOutcome = NeverCallsBack\<rparr>"]
  by (simp add: shutdown_def shutdown_sequence_def ros_shutdown_def stopServer_def race_def
      logged_by_def timed_out_def Let_def)

end
